theory Spec2Isabelle
  imports Complex_Main "HOL-Library.Sublist" "HOL-Library.Multiset"
begin

section \<open>Metric extractors of \<open>synth-util.py\<close>\<close>

text \<open>
  Text is modelled as \<^typ>\<open>string\<close>: the model covers file contents whose code points lie
  in the Latin-1 range, one \<^typ>\<open>char\<close> per code point. A file that cannot be opened, read
  or decoded is \<open>None\<close>: the extractors catch every exception and return \<open>None\<close>.
\<close>

subsection \<open>The backtracking matcher behind \<open>re.findall\<close>\<close>

text \<open>
  The two patterns of the source use literal characters, the classes \<open>\s\<close>, \<open>\d\<close> and
  \<open>.\<close>, the greedy quantifiers \<open>*\<close> and \<open>+\<close>, the lazy \<open>*?\<close> and one capture group.
  \<open>\s\<close> on a \<open>str\<close> pattern is Unicode white space: below 256 these are the code points
  9 to 13, 28 to 32, 133 and 160. \<open>\d\<close> below 256 is \<open>0\<close> to \<open>9\<close>. \<open>.\<close> is every
  character but the line feed.
\<close>

datatype cls = Ch char | Space | Digit | Dot

definition is_space :: "char \<Rightarrow> bool" where
  "is_space x = (x \<in> set [CHR 0x09, CHR 0x0A, CHR 0x0B, CHR 0x0C, CHR 0x0D,
                            CHR 0x1C, CHR 0x1D, CHR 0x1E, CHR 0x1F, CHR 0x20,
                            CHR 0x85, CHR 0xA0])"

definition is_digit :: "char \<Rightarrow> bool" where
  "is_digit x = (x \<in> set ''0123456789'')"

fun cls_match :: "cls \<Rightarrow> char \<Rightarrow> bool" where
  "cls_match (Ch c) x = (x = c)"
| "cls_match Space x = is_space x"
| "cls_match Digit x = is_digit x"
| "cls_match Dot x = (x \<noteq> CHR 0x0A)"

datatype quant = Once | Star | Plus | LazyStar

text \<open>
  An atom is a class, its quantifier, and whether it stands inside the capture group.
\<close>

type_synonym atom = "cls \<times> quant \<times> bool"

definition capture :: "bool \<Rightarrow> string \<Rightarrow> char \<Rightarrow> string" where
  "capture g cap x = (if g then cap @ [x] else cap)"

text \<open>
  \<open>rmatch ps cap s\<close> matches the sequence \<open>ps\<close> at the start of \<open>s\<close> the way the
  backtracking engine of \<open>re\<close> does: a greedy quantifier first tries to take one more
  character and falls back to the rest of the pattern, a lazy one first tries the rest of
  the pattern and then takes one more character. The first success in that order is the
  match: its captured text and the unread rest of \<open>s\<close>.
\<close>

fun rmatch :: "atom list \<Rightarrow> string \<Rightarrow> string \<Rightarrow> (string \<times> string) option" where
  "rmatch [] cap s = Some (cap, s)"
| "rmatch ((c, Once, g) # ps) cap [] = None"
| "rmatch ((c, Once, g) # ps) cap (x # xs) =
     (if cls_match c x then rmatch ps (capture g cap x) xs else None)"
| "rmatch ((c, Plus, g) # ps) cap [] = None"
| "rmatch ((c, Plus, g) # ps) cap (x # xs) =
     (if cls_match c x then rmatch ((c, Star, g) # ps) (capture g cap x) xs else None)"
| "rmatch ((c, Star, g) # ps) cap [] = rmatch ps cap []"
| "rmatch ((c, Star, g) # ps) cap (x # xs) =
     (if cls_match c x
      then (case rmatch ((c, Star, g) # ps) (capture g cap x) xs of
              Some r \<Rightarrow> Some r
            | None \<Rightarrow> rmatch ps cap (x # xs))
      else rmatch ps cap (x # xs))"
| "rmatch ((c, LazyStar, g) # ps) cap [] = rmatch ps cap []"
| "rmatch ((c, LazyStar, g) # ps) cap (x # xs) =
     (case rmatch ps cap (x # xs) of
        Some r \<Rightarrow> Some r
      | None \<Rightarrow>
          (if cls_match c x then rmatch ((c, LazyStar, g) # ps) (capture g cap x) xs
           else None))"

definition lit :: "string \<Rightarrow> atom list" where
  "lit s = map (\<lambda>c. (Ch c, Once, False)) s"

subsection \<open>\<open>_parse_yosys_abc_levels\<close>\<close>

text \<open>
  The pattern \<^verbatim>\<open>ABC: netlist\s*:\s*.*?\s+lev\s*=\s*(\d+)\<close>.
\<close>

definition abc_pattern :: "atom list" where
  "abc_pattern =
     lit ''ABC: netlist'' @
     [(Space, Star, False), (Ch CHR '':'', Once, False), (Space, Star, False),
      (Dot, LazyStar, False), (Space, Plus, False)] @
     lit ''lev'' @
     [(Space, Star, False), (Ch CHR ''='', Once, False), (Space, Star, False),
      (Digit, Plus, True)]"

lemma rmatch_length: "rmatch ps cap s = Some (cap', r) \<Longrightarrow> length r \<le> length s"
proof (induction ps cap s arbitrary: cap' r rule: rmatch.induct)
  case (7 c g ps cap x xs)
  then show ?case
    by (fastforce split: if_splits option.splits)
next
  case (9 c g ps cap x xs)
  then show ?case
    by (fastforce split: if_splits option.splits)
qed (fastforce split: if_splits)+

lemma abc_pattern_consumes:
  assumes m: "rmatch abc_pattern cap (x # xs) = Some (cap', r)"
  shows "length r < Suc (length xs)"
proof -
  obtain ps where ps: "abc_pattern = (Ch CHR ''A'', Once, False) # ps"
    by (simp add: abc_pattern_def lit_def)
  from m have "rmatch ps (capture False cap x) xs = Some (cap', r)"
    unfolding ps by (simp split: if_splits)
  then have "length r \<le> length xs" by (rule rmatch_length)
  then show ?thesis by simp
qed

text \<open>
  \<open>re.findall\<close> with one group: scan from the left, at each position try the pattern,
  collect the captured text of a match and go on after its end. The pattern matches no
  empty text, so nothing is found at the end of the content.
\<close>

function findall_levels :: "string \<Rightarrow> string list" where
  "findall_levels [] = []"
| "findall_levels (x # xs) =
     (case rmatch abc_pattern [] (x # xs) of
        None \<Rightarrow> findall_levels xs
      | Some (cap, r) \<Rightarrow> cap # findall_levels r)"
  by pat_completeness auto
termination
  by (relation "measure length") (auto dest: abc_pattern_consumes)

text \<open>\<open>int\<close> of a string of decimal digits.\<close>

definition digit_val :: "char \<Rightarrow> int" where
  "digit_val d = int (of_char d) - 48"

definition py_int :: "string \<Rightarrow> int" where
  "py_int ds = foldl (\<lambda>a d. 10 * a + digit_val d) 0 ds"

definition parse_yosys_abc_levels :: "string option \<Rightarrow> int option" where
  "parse_yosys_abc_levels log_file =
     (case log_file of
        None \<Rightarrow> None
      | Some content \<Rightarrow>
          (let matches = findall_levels content
           in if matches \<noteq> [] then Some (py_int (last matches)) else None))"

subsection \<open>\<open>_count_luts_in_blif\<close>\<close>

text \<open>
  \<open>re.findall(r'^\.names', content, re.MULTILINE)\<close>: the anchor holds at the start of
  the content and right after a line feed. \<open>names_matches bol s\<close> is the number of
  matches in \<open>s\<close>, where \<open>bol\<close> says whether \<open>s\<close> starts a line; after a match the scan
  goes on behind its six characters.
\<close>

fun names_matches :: "bool \<Rightarrow> string \<Rightarrow> nat" where
  "names_matches bol [] = 0"
| "names_matches bol (x # xs) =
     (if bol \<and> prefix ''.names'' (x # xs)
      then Suc (names_matches False (drop 5 xs))
      else names_matches (x = CHR 0x0A) xs)"

definition count_luts_in_blif :: "string option \<Rightarrow> int option" where
  "count_luts_in_blif blif_file =
     (case blif_file of
        None \<Rightarrow> None
      | Some content \<Rightarrow>
          (let lut_count = int (names_matches True content)
           in if lut_count > 0 then Some lut_count else None))"

text \<open>
  The words of the specification: the number of lines of the file that are
  primitive-definition entries, that is, that begin with \<open>.names\<close>.
\<close>

fun split_lines :: "string \<Rightarrow> string list" where
  "split_lines [] = [[]]"
| "split_lines (x # xs) =
     (if x = CHR 0x0A then [] # split_lines xs
      else (case split_lines xs of l # ls \<Rightarrow> (x # l) # ls | [] \<Rightarrow> [[x]]))"

definition names_lines :: "string \<Rightarrow> nat" where
  "names_lines content = length (filter (prefix ''.names'') (split_lines content))"

section \<open>Flow runners\<close>

record SynthesisResults =
  timing_levels :: "int option"
  lut_count :: "int option"
  runtime :: "real option"
  success :: bool
  error_message :: "string option"

text \<open>\<open>SynthesisResults()\<close>: the constructor's defaults.\<close>

definition new_results :: SynthesisResults where
  "new_results =
     \<lparr>timing_levels = None, lut_count = None, runtime = None, success = False,
      error_message = None\<rparr>"

text \<open>
  What \<open>subprocess.run\<close> did with a command: the process ran and exited with a return
  code, its output and its error text, or the executable was not found, or the launch
  raised another exception (each with the exception's text).
\<close>

datatype launch = Exited int string string | FileNotFound string | LaunchFault string

fun run_command :: "launch \<Rightarrow> int \<times> string \<times> string" where
  "run_command (Exited returncode out err) = (returncode, out, err)"
| "run_command (FileNotFound e) = (- 1, [], ''Command not found: '' @ e)"
| "run_command (LaunchFault e) = (- 1, [], ''Error running command: '' @ e)"

text \<open>
  The environment of one flow: the readings of \<open>time.time()\<close> (at the start, after the
  metrics are read, and inside the exception handler), what each external tool did, and
  what the file system did. An exception is its text; \<open>Inl e\<close> or \<open>Some e\<close> in a
  file-system field says that the call raised \<open>e\<close>. Wall-clock readings and their
  differences are real numbers. \<open>json_metrics\<close> is the pair that \<open>_parse_circt_json\<close>
  returns for the report file. Printing and debug logging are left out: they are taken
  not to raise.
\<close>

record flow_env =
  t_start :: real
  t_end :: real
  t_handler :: real
  verilog_run :: launch
  synth_run :: launch
  translate_run :: launch
  yosys_run :: launch
  json_exists :: "string + bool"
  json_metrics :: "int option \<times> int option"
  script :: "string + string"
  log_write :: "string option"
  log_exists :: "string + bool"
  log_readable :: bool
  blif_exists :: "string + bool"
  blif_content :: "string option"
  unlink :: "string option"

text \<open>The \<open>except Exception as e\<close> handler of a flow, with its message prefix.\<close>

definition handler :: "string \<Rightarrow> flow_env \<Rightarrow> SynthesisResults \<Rightarrow> string \<Rightarrow> SynthesisResults" where
  "handler label env results e =
     results\<lparr>error_message := Some (label @ e),
             runtime := Some (t_handler env - t_start env)\<rparr>"

text \<open>The text saved to the log file: the output, then the error text under a header.\<close>

definition log_text :: "string \<Rightarrow> string \<Rightarrow> string" where
  "log_text out err =
     out @ (if err \<noteq> [] then [CHR 0x0A] @ ''--- STDERR ---'' @ [CHR 0x0A] @ err else [])"

definition run_circt_synthesis :: "flow_env \<Rightarrow> SynthesisResults" where
  "run_circt_synthesis env =
     (let results = new_results in
      (case run_command (verilog_run env) of (returncode, out, err) \<Rightarrow>
      if returncode \<noteq> 0
      then results\<lparr>error_message := Some (''circt-verilog failed: '' @ err)\<rparr>
      else
      (case run_command (synth_run env) of (returncode, out, err) \<Rightarrow>
      if returncode \<noteq> 0
      then results\<lparr>error_message := Some (''circt-synth failed: '' @ err)\<rparr>
      else
      (case json_exists env of
        Inl e \<Rightarrow> handler ''CIRCT synthesis error: '' env results e
      | Inr json_there \<Rightarrow>
          (let results =
                 (if json_there
                  then results\<lparr>timing_levels := fst (json_metrics env),
                               lut_count := snd (json_metrics env)\<rparr>
                  else results)
           in results\<lparr>runtime := Some (t_end env - t_start env), success := True\<rparr>)))))"

definition run_yosys_synthesis :: "flow_env \<Rightarrow> SynthesisResults" where
  "run_yosys_synthesis env =
     (let results = new_results in
      (case script env of
        Inl e \<Rightarrow> handler ''Yosys synthesis error: '' env results e
      | Inr yosys_script \<Rightarrow>
      (case run_command (yosys_run env) of (returncode, out, err) \<Rightarrow>
      (case log_write env of
        Some e \<Rightarrow> handler ''Yosys synthesis error: '' env results e
      | None \<Rightarrow>
      if returncode \<noteq> 0
      then results\<lparr>error_message := Some (''Yosys failed: '' @ err)\<rparr>
      else
      (case log_exists env of
        Inl e \<Rightarrow> handler ''Yosys synthesis error: '' env results e
      | Inr log_there \<Rightarrow>
      (let results =
            (if log_there
             then results\<lparr>timing_levels :=
                    parse_yosys_abc_levels
                      (if log_readable env then Some (log_text out err) else None)\<rparr>
             else results)
      in
      (case blif_exists env of
        Inl e \<Rightarrow> handler ''Yosys synthesis error: '' env results e
      | Inr blif_there \<Rightarrow>
      (let results =
            (if blif_there then results\<lparr>lut_count := count_luts_in_blif (blif_content env)\<rparr>
             else results);
          results = results\<lparr>runtime := Some (t_end env - t_start env), success := True\<rparr>
      in
      (case unlink env of
        Some e \<Rightarrow> handler ''Yosys synthesis error: '' env results e
      | None \<Rightarrow> results)))))))))"

definition run_hybrid_synthesis :: "flow_env \<Rightarrow> SynthesisResults" where
  "run_hybrid_synthesis env =
     (let results = new_results in
      (case run_command (verilog_run env) of (returncode, out, err) \<Rightarrow>
      if returncode \<noteq> 0
      then results\<lparr>error_message := Some (''circt-verilog failed: '' @ err)\<rparr>
      else
      (case run_command (synth_run env) of (returncode, out, err) \<Rightarrow>
      if returncode \<noteq> 0
      then results\<lparr>error_message := Some (''circt-synth failed: '' @ err)\<rparr>
      else
      (case run_command (translate_run env) of (returncode, out, err) \<Rightarrow>
      if returncode \<noteq> 0
      then results\<lparr>error_message :=
             Some (''circt-translate AIGER export failed: '' @ err)\<rparr>
      else
      (case script env of
        Inl e \<Rightarrow> handler ''Hybrid synthesis error: '' env results e
      | Inr yosys_script \<Rightarrow>
      (case run_command (yosys_run env) of (returncode, out, err) \<Rightarrow>
      (case log_write env of
        Some e \<Rightarrow> handler ''Hybrid synthesis error: '' env results e
      | None \<Rightarrow>
      if returncode \<noteq> 0
      then results\<lparr>error_message := Some (''Yosys LUT mapping failed: '' @ err)\<rparr>
      else
      (case log_exists env of
        Inl e \<Rightarrow> handler ''Hybrid synthesis error: '' env results e
      | Inr log_there \<Rightarrow>
      (let results =
            (if log_there
             then results\<lparr>timing_levels :=
                    parse_yosys_abc_levels
                      (if log_readable env then Some (log_text out err) else None)\<rparr>
             else results)
      in
      (case blif_exists env of
        Inl e \<Rightarrow> handler ''Hybrid synthesis error: '' env results e
      | Inr blif_there \<Rightarrow>
      (let results =
            (if blif_there then results\<lparr>lut_count := count_luts_in_blif (blif_content env)\<rparr>
             else results);
          results = results\<lparr>runtime := Some (t_end env - t_start env), success := True\<rparr>
      in
      (case unlink env of
        Some e \<Rightarrow> handler ''Hybrid synthesis error: '' env results e
      | None \<Rightarrow> results))))))))))))"

section \<open>Comparator\<close>

record Analysis =
  timing_winner :: "string option"
  timing_levels_all :: "(string \<times> int) list option"
  timing_improvement :: "int option"
  area_winner :: "string option"
  lut_counts_all :: "(string \<times> int) list option"
  area_improvement :: "int option"
  runtime_winner :: "string option"
  runtimes_all :: "(string \<times> real) list option"
  speedup :: "real option"

text \<open>
  The \<open>analysis\<close> dictionary: a key that was never stored is \<open>None\<close>. The three
  \<open>_all\<close> dictionaries are built from distinct strategy names, so each is the list of
  its items in insertion order, the order in which Python keeps, prints and saves them.
\<close>

definition empty_analysis :: Analysis where
  "empty_analysis =
     \<lparr>timing_winner = None, timing_levels_all = None, timing_improvement = None,
      area_winner = None, lut_counts_all = None, area_improvement = None,
      runtime_winner = None, runtimes_all = None, speedup = None\<rparr>"

record Comparison =
  circt :: SynthesisResults
  yosys :: SynthesisResults
  hybrid :: "SynthesisResults option"
  analysis :: Analysis

text \<open>The successful flows, appended in the order CIRCT, Yosys+ABC, CIRCT+Yosys.\<close>

definition flows :: "SynthesisResults \<Rightarrow> SynthesisResults \<Rightarrow> SynthesisResults option \<Rightarrow>
    (string \<times> SynthesisResults) list" where
  "flows circt_results yosys_results hybrid_results =
     (if success circt_results then [(''CIRCT'', circt_results)] else []) @
     (if success yosys_results then [(''Yosys+ABC'', yosys_results)] else []) @
     (case hybrid_results of
        None \<Rightarrow> []
      | Some h \<Rightarrow> if success h then [(''CIRCT+Yosys'', h)] else [])"

text \<open>
  \<open>[(name, result.m) for name, result in flows if result.m is not None]\<close> for a
  metric \<open>m\<close>.
\<close>

definition present :: "(SynthesisResults \<Rightarrow> 'a option) \<Rightarrow> (string \<times> SynthesisResults) list \<Rightarrow>
    (string \<times> 'a) list" where
  "present metric fl =
     List.map_filter (\<lambda>(name, result). map_option (Pair name) (metric result)) fl"

text \<open>
  The three blocks of \<open>compare_results\<close>. \<open>list.sort(key=lambda x: x[1])\<close> is a stable
  sort on the value, in place: the winner, the \<open>_all\<close> dictionary and the margin are all
  read from the sorted list. The division of the runtime block raises
  \<open>ZeroDivisionError\<close> when the fastest runtime is zero.
\<close>

definition timing_block :: "(string \<times> SynthesisResults) list \<Rightarrow> Analysis \<Rightarrow> Analysis" where
  "timing_block fl a =
     (let timing = present timing_levels fl in
      if length timing \<ge> 2
      then (let timing = sort_key snd timing;
                best_timing = timing ! 0
            in a\<lparr>timing_winner := Some (fst best_timing),
                 timing_levels_all := Some timing,
                 timing_improvement :=
                   Some (if length timing > 1 then snd (timing ! 1) - snd (timing ! 0) else 0)\<rparr>)
      else a\<lparr>timing_winner := Some ''Unable to compare''\<rparr>)"

definition area_block :: "(string \<times> SynthesisResults) list \<Rightarrow> Analysis \<Rightarrow> Analysis" where
  "area_block fl a =
     (let lut_counts = present lut_count fl in
      if length lut_counts \<ge> 2
      then (let lut_counts = sort_key snd lut_counts;
                best_area = lut_counts ! 0
            in a\<lparr>area_winner := Some (fst best_area),
                 lut_counts_all := Some lut_counts,
                 area_improvement :=
                   Some (if length lut_counts > 1
                         then snd (lut_counts ! 1) - snd (lut_counts ! 0) else 0)\<rparr>)
      else a\<lparr>area_winner := Some ''Unable to compare''\<rparr>)"

definition runtime_block :: "(string \<times> SynthesisResults) list \<Rightarrow> Analysis \<Rightarrow> string + Analysis" where
  "runtime_block fl a =
     (let runtimes = present runtime fl in
      if length runtimes \<ge> 2
      then (let runtimes = sort_key snd runtimes;
                fastest = runtimes ! 0;
                a = a\<lparr>runtime_winner := Some (fst fastest), runtimes_all := Some runtimes\<rparr>
            in if length runtimes > 1
               then (if snd (runtimes ! 0) = 0 then Inl ''float division by zero''
                     else Inr (a\<lparr>speedup := Some (snd (runtimes ! 1) / snd (runtimes ! 0))\<rparr>))
               else Inr (a\<lparr>speedup := Some 1\<rparr>))
      else Inr a)"

definition compare_results :: "SynthesisResults \<Rightarrow> SynthesisResults \<Rightarrow> SynthesisResults option \<Rightarrow>
    string + Comparison" where
  "compare_results circt_results yosys_results hybrid_results =
     (let comparison =
            \<lparr>circt = circt_results, yosys = yosys_results, hybrid = hybrid_results,
             analysis = empty_analysis\<rparr>;
          fl = flows circt_results yosys_results hybrid_results
      in if length fl < 2
         then Inr (comparison\<lparr>analysis :=
                 empty_analysis\<lparr>timing_winner := Some ''Unable to compare'',
                                area_winner := Some ''Unable to compare''\<rparr>\<rparr>)
         else (case runtime_block fl (area_block fl (timing_block fl empty_analysis)) of
                 Inl e \<Rightarrow> Inl e
               | Inr a \<Rightarrow> Inr (comparison\<lparr>analysis := a\<rparr>)))"

section \<open>Batch driver\<close>

text \<open>
  One entry of the \<open>results\<close> dictionary: the record of a comparison (file path, the
  CIRCT and the Yosys results, the analysis), or the failure entry (file path, the text
  of the exception).
\<close>

datatype file_entry =
    Compared string SynthesisResults SynthesisResults Analysis
  | Errored string string

record Summary =
  successful_comparisons :: nat
  failed_comparisons :: nat
  circt_wins_timing :: nat
  yosys_wins_timing :: nat
  ties_timing :: nat
  circt_wins_area :: nat
  yosys_wins_area :: nat
  ties_area :: nat
  total_circt_time :: real
  total_yosys_time :: real

record BatchResults =
  input_path :: string
  total_files :: nat
  results :: "string \<rightharpoonup> file_entry"
  summary :: Summary

text \<open>
  What happens while one file of the batch is processed: the environments of its three
  flows, and the exceptions raised outside the flows, by the creation of the per-file
  comparator and its directories (\<open>setup_fault\<close>) and by printing and saving the
  comparison report (\<open>report_fault\<close>).
\<close>

record file_run =
  verilog_file :: string
  setup_fault :: "string option"
  circt_env :: flow_env
  yosys_env :: flow_env
  hybrid_env :: flow_env
  report_fault :: "string option"

text \<open>\<open>Path(verilog_file).name\<close>: the last component of the path.\<close>

definition path_name :: "string \<Rightarrow> string" where
  "path_name p = rev (takeWhile (\<lambda>c. c \<noteq> CHR ''/'') (rev p))"

definition run_comparison :: "file_run \<Rightarrow> string + Comparison" where
  "run_comparison f =
     (let circt_results = run_circt_synthesis (circt_env f);
          yosys_results = run_yosys_synthesis (yosys_env f);
          hybrid_results = run_hybrid_synthesis (hybrid_env f)
      in (case compare_results circt_results yosys_results (Some hybrid_results) of
            Inl e \<Rightarrow> Inl e
          | Inr comparison \<Rightarrow>
              (case report_fault f of Some e \<Rightarrow> Inl e | None \<Rightarrow> Inr comparison)))"

text \<open>\<open>analysis.get(key, 'Unable to compare')\<close>.\<close>

definition get_winner :: "string option \<Rightarrow> string" where
  "get_winner w = (case w of None \<Rightarrow> ''Unable to compare'' | Some v \<Rightarrow> v)"

text \<open>\<open>if r.runtime: total += r.runtime\<close>: a runtime that is absent or zero adds nothing.\<close>

definition add_runtime :: "real \<Rightarrow> real option \<Rightarrow> real" where
  "add_runtime acc r = (case r of None \<Rightarrow> acc | Some v \<Rightarrow> if v \<noteq> 0 then acc + v else acc)"

text \<open>The update of the summary statistics after a comparison was stored.\<close>

definition tally :: "Summary \<Rightarrow> Comparison \<Rightarrow> Summary" where
  "tally s comparison =
     (if success (circt comparison) \<and> success (yosys comparison)
      then
        (let s = s\<lparr>successful_comparisons := successful_comparisons s + 1\<rparr>;
             timing_winner = get_winner (timing_winner (analysis comparison));
             s = (if timing_winner = ''CIRCT''
                  then s\<lparr>circt_wins_timing := circt_wins_timing s + 1\<rparr>
                  else if timing_winner = ''Yosys+ABC''
                  then s\<lparr>yosys_wins_timing := yosys_wins_timing s + 1\<rparr>
                  else if timing_winner = ''Tie''
                  then s\<lparr>ties_timing := ties_timing s + 1\<rparr>
                  else s);
             area_winner = get_winner (area_winner (analysis comparison));
             s = (if area_winner = ''CIRCT''
                  then s\<lparr>circt_wins_area := circt_wins_area s + 1\<rparr>
                  else if area_winner = ''Yosys+ABC''
                  then s\<lparr>yosys_wins_area := yosys_wins_area s + 1\<rparr>
                  else if area_winner = ''Tie''
                  then s\<lparr>ties_area := ties_area s + 1\<rparr>
                  else s)
         in s\<lparr>total_circt_time := add_runtime (total_circt_time s) (runtime (circt comparison)),
              total_yosys_time := add_runtime (total_yosys_time s) (runtime (yosys comparison))\<rparr>)
      else s\<lparr>failed_comparisons := failed_comparisons s + 1\<rparr>)"

text \<open>
  The part of the \<open>try\<close> block that can raise: creating the per-file comparator and
  running the comparison.
\<close>

definition try_file :: "file_run \<Rightarrow> string + Comparison" where
  "try_file f = (case setup_fault f of Some e \<Rightarrow> Inl e | None \<Rightarrow> run_comparison f)"

text \<open>
  The body of the loop over the files: the \<open>try\<close> block stores the record of the
  comparison and updates the summary; the \<open>except Exception\<close> block counts a failed
  comparison and stores the failure entry.
\<close>

definition process_file :: "BatchResults \<Rightarrow> file_run \<Rightarrow> BatchResults" where
  "process_file b f =
     (let file_name = path_name (verilog_file f) in
      (case try_file f of
         Inr comparison \<Rightarrow>
           b\<lparr>results := (results b)(file_name \<mapsto>
                 Compared (verilog_file f) (circt comparison) (yosys comparison)
                   (analysis comparison)),
             summary := tally (summary b) comparison\<rparr>
       | Inl e \<Rightarrow>
           b\<lparr>summary := (summary b)\<lparr>failed_comparisons := failed_comparisons (summary b) + 1\<rparr>,
             results := (results b)(file_name \<mapsto> Errored (verilog_file f) e)\<rparr>))"

definition initial_batch :: "string \<Rightarrow> nat \<Rightarrow> BatchResults" where
  "initial_batch path n =
     \<lparr>input_path = path, total_files = n, results = Map.empty,
      summary =
        \<lparr>successful_comparisons = 0, failed_comparisons = 0,
         circt_wins_timing = 0, yosys_wins_timing = 0, ties_timing = 0,
         circt_wins_area = 0, yosys_wins_area = 0, ties_area = 0,
         total_circt_time = 0, total_yosys_time = 0\<rparr>\<rparr>"

text \<open>
  \<open>run_batch_comparison\<close> on the files that \<open>find_verilog_files\<close> found: no file raises
  \<open>ValueError\<close>; \<open>save_fault\<close> is an exception raised by printing the summary or
  saving the batch report, after the loop.
\<close>

definition run_batch_comparison :: "string \<Rightarrow> file_run list \<Rightarrow> string option \<Rightarrow>
    string + BatchResults" where
  "run_batch_comparison path verilog_files save_fault =
     (if verilog_files = [] then Inl (''No Verilog files found in '' @ path)
      else (let batch_results =
                  foldl process_file (initial_batch path (length verilog_files)) verilog_files
            in (case save_fault of Some e \<Rightarrow> Inl e | None \<Rightarrow> Inr batch_results)))"

section \<open>Example runs\<close>

text \<open>A log with three statistics lines, of levels 12, 9 and 15 in this order.\<close>

definition abc_log :: string where
  "abc_log =
     ''ABC: netlist : i/o = 4/ 2 lat = 0 nd = 31 edge = 90 lev = 12'' @ [CHR 0x0A] @
     ''ABC: netlist : i/o = 4/ 2 lat = 0 nd = 22 edge = 71 lev = 9'' @ [CHR 0x0A] @
     ''ABC: netlist : i/o = 4/ 2 lat = 0 nd = 25 edge = 80 lev = 15'' @ [CHR 0x0A]"

text \<open>A netlist with three \<open>.names\<close> entries, and one with none.\<close>

definition blif3 :: string where
  "blif3 =
     ''.model top'' @ [CHR 0x0A] @
     ''.names a b y'' @ [CHR 0x0A] @ ''11 1'' @ [CHR 0x0A] @
     ''.names b c z'' @ [CHR 0x0A] @ ''1- 1'' @ [CHR 0x0A] @
     ''.names y z o'' @ [CHR 0x0A] @ ''11 1'' @ [CHR 0x0A] @
     ''.end'' @ [CHR 0x0A]"

definition blif0 :: string where
  "blif0 = ''.model top'' @ [CHR 0x0A] @ ''.end'' @ [CHR 0x0A]"

text \<open>
  An environment in which every tool exits with status 0 and every file operation
  succeeds: the flows take two seconds, the report gives 7 levels and 40 cells, the
  statistics line of the log gives 15 levels and the netlist is \<open>blif3\<close>.
\<close>

definition env_ok :: flow_env where
  "env_ok =
     \<lparr>t_start = 100, t_end = 102, t_handler = 103,
      verilog_run = Exited 0 [] [], synth_run = Exited 0 [] [],
      translate_run = Exited 0 [] [],
      yosys_run = Exited 0 ''ABC: netlist : nd = 3 lev = 15'' [],
      json_exists = Inr True, json_metrics = (Some 7, Some 40),
      script = Inr ''/tmp/tmp1.ys'', log_write = None, log_exists = Inr True,
      log_readable = True, blif_exists = Inr True, blif_content = Some blif3,
      unlink = None\<rparr>"

text \<open>The first tool of the flow exits with status 1.\<close>

definition env_stage_fails :: flow_env where
  "env_stage_fails =
     env_ok\<lparr>verilog_run := Exited 1 [] ''syntax error'',
            yosys_run := Exited 1 [] ''syntax error''\<rparr>"

text \<open>Every tool succeeds, and removing the temporary script raises.\<close>

definition env_unlink_fails :: flow_env where
  "env_unlink_fails = env_ok\<lparr>unlink := Some ''No such file or directory''\<rparr>"

text \<open>Three files of a batch, \<open>a.sv\<close>, \<open>b.sv\<close> and \<open>c.sv\<close>.\<close>

definition file_ok :: "string \<Rightarrow> file_run" where
  "file_ok path =
     \<lparr>verilog_file = path, setup_fault = None, circt_env = env_ok, yosys_env = env_ok,
      hybrid_env = env_ok, report_fault = None\<rparr>"

text \<open>Processing the file raises: its comparison report cannot be saved.\<close>

definition file_raises :: "string \<Rightarrow> file_run" where
  "file_raises path = (file_ok path)\<lparr>report_fault := Some ''No space left on device''\<rparr>"

text \<open>Nothing is raised, and the first tool of the CIRCT flow exits with status 1.\<close>

definition file_circt_fails :: "string \<Rightarrow> file_run" where
  "file_circt_fails path = (file_ok path)\<lparr>circt_env := env_stage_fails\<rparr>"

text \<open>
  Two batches of three files. In both, processing the second file raises a fault and
  processing the first and the third raises none; in the second batch the CIRCT flow of
  the first file fails.
\<close>

definition batch_second_raises :: "file_run list" where
  "batch_second_raises =
     [file_ok ''designs/a.sv'', file_raises ''designs/b.sv'', file_ok ''designs/c.sv'']"

definition batch_first_flow_fails :: "file_run list" where
  "batch_first_flow_fails =
     [file_circt_fails ''designs/a.sv'', file_raises ''designs/b.sv'', file_ok ''designs/c.sv'']"

text \<open>Results of flows for the comparator: a value of each metric, success.\<close>

definition flow_result :: "int \<Rightarrow> int \<Rightarrow> real \<Rightarrow> SynthesisResults" where
  "flow_result levels luts secs =
     \<lparr>timing_levels = Some levels, lut_count = Some luts, runtime = Some secs,
      success = True, error_message = None\<rparr>"






definition deep_circt :: SynthesisResults where
  "deep_circt = flow_result 10 50 3"

definition shallow_yosys :: SynthesisResults where
  "shallow_yosys = flow_result 5 60 2"

section \<open>The words of the specification\<close>

text \<open>
  The strategies that qualify for a metric, in the fixed priority order native, external,
  hybrid: those whose flow succeeded and whose metric is present.
\<close>

definition qualifying :: "(SynthesisResults \<Rightarrow> 'a option) \<Rightarrow> SynthesisResults \<Rightarrow>
    SynthesisResults \<Rightarrow> SynthesisResults option \<Rightarrow> (string \<times> 'a) list" where
  "qualifying metric c y h =
     List.map_filter
       (\<lambda>(name, r). if success r then map_option (Pair name) (metric r) else None)
       ([(''CIRCT'', c), (''Yosys+ABC'', y)] @
        (case h of None \<Rightarrow> [] | Some r \<Rightarrow> [(''CIRCT+Yosys'', r)]))"


text \<open>
  For a file of the batch: processing it raised a fault; it was processed without a fault
  and its CIRCT or its Yosys flow did not succeed; the entry stored for it.
\<close>

definition faulted :: "file_run \<Rightarrow> bool" where
  "faulted f = (case try_file f of Inl e \<Rightarrow> True | Inr comparison \<Rightarrow> False)"

definition flow_failed :: "file_run \<Rightarrow> bool" where
  "flow_failed f =
     (case try_file f of
        Inl e \<Rightarrow> False
      | Inr comparison \<Rightarrow> \<not> (success (circt comparison) \<and> success (yosys comparison)))"

definition file_record :: "file_run \<Rightarrow> file_entry" where
  "file_record f =
     (case try_file f of
        Inl e \<Rightarrow> Errored (verilog_file f) e
      | Inr comparison \<Rightarrow>
          Compared (verilog_file f) (circt comparison) (yosys comparison)
            (analysis comparison))"

section \<open>Properties of the extractors\<close>

lemma split_lines_nonempty: "split_lines s \<noteq> []"
  by (induction s) (auto split: list.splits)

lemma split_lines_Cons:
  "x \<noteq> CHR 0x0A \<Longrightarrow> split_lines (x # s) = (x # hd (split_lines s)) # tl (split_lines s)"
  using split_lines_nonempty [of s] by (cases "split_lines s") auto

lemma split_lines_append:
  "CHR 0x0A \<notin> set p \<Longrightarrow> split_lines (p @ s) = (p @ hd (split_lines s)) # tl (split_lines s)"
proof (induction p)
  case Nil
  then show ?case using split_lines_nonempty [of s] by simp
next
  case (Cons a p)
  then have a: "a \<noteq> CHR 0x0A" and IH: "split_lines (p @ s) = (p @ hd (split_lines s)) # tl (split_lines s)"
    by auto
  have "split_lines ((a # p) @ s) = (a # hd (split_lines (p @ s))) # tl (split_lines (p @ s))"
    using split_lines_Cons [OF a, of "p @ s"] by simp
  then show ?case unfolding IH by simp
qed

lemma first_line_prefix: "prefix (hd (split_lines s)) s"
proof (induction s)
  case Nil
  then show ?case by simp
next
  case (Cons a s)
  then show ?case using split_lines_nonempty [of s] by (cases "split_lines s") auto
qed

lemma names_matches_lines:
  "names_matches bol s =
     length (filter (prefix ''.names'') (if bol then split_lines s else tl (split_lines s)))"
proof (induction bol s rule: names_matches.induct)
  case (1 bol)
  then show ?case by simp
next
  case (2 bol x xs)
  let ?P = "prefix ''.names''"
  let ?R = "length (filter ?P (if bol then split_lines (x # xs) else tl (split_lines (x # xs))))"
  show ?case
  proof (cases "bol \<and> prefix ''.names'' (x # xs)")
    case True
    then obtain rest where r: "x # xs = ''.names'' @ rest"
      by (auto simp: prefix_def)
    then have d: "drop 5 xs = rest" by auto
    have sl: "split_lines (x # xs) = (''.names'' @ hd (split_lines rest)) # tl (split_lines rest)"
      unfolding r by (rule split_lines_append) simp
    have "names_matches bol (x # xs) = Suc (names_matches False (drop 5 xs))"
      by (simp only: names_matches.simps True if_True simp_thms)
    also have "\<dots> = Suc (length (filter ?P (tl (split_lines rest))))"
      using 2(1) [OF True] d by simp
    also have "\<dots> = ?R"
      using True unfolding sl by simp
    finally show ?thesis .
  next
    case False
    note F = this
    have step: "names_matches bol (x # xs) = names_matches (x = CHR 0x0A) xs"
      by (simp only: names_matches.simps F if_False)
    show ?thesis
    proof (cases "x = CHR 0x0A")
      case True
      have "names_matches bol (x # xs) = names_matches True xs"
        using step True by simp
      also have "\<dots> = length (filter ?P (split_lines xs))"
        using 2(2) [OF F] True by simp
      also have "\<dots> = ?R"
        using True by simp
      finally show ?thesis .
    next
      case False
      have np: "bol \<Longrightarrow> \<not> ?P (x # hd (split_lines xs))"
      proof
        assume b: bol and p: "?P (x # hd (split_lines xs))"
        have "prefix (x # hd (split_lines xs)) (x # xs)"
          using first_line_prefix [of xs] by simp
        with p have "?P (x # xs)" by (rule prefix_order.trans)
        with F b show False by simp
      qed
      have sl: "split_lines (x # xs) = (x # hd (split_lines xs)) # tl (split_lines xs)"
        using False by (rule split_lines_Cons)
      have "names_matches bol (x # xs) = names_matches False xs"
        using step False by simp
      also have "\<dots> = length (filter ?P (tl (split_lines xs)))"
        using 2(2) [OF F] False by simp
      also have "\<dots> = ?R"
        using np unfolding sl by (cases bol) simp_all
      finally show ?thesis .
    qed
  qed
qed

text \<open>
  C9. The netlist-file extractor returns the number of lines that begin with \<open>.names\<close>
  when that number is positive, and returns absent, never zero, when the number is zero
  or the file cannot be read.
\<close>

theorem count_luts_in_blif_spec:
  "count_luts_in_blif None = None \<and>
   count_luts_in_blif (Some content) =
     (if 0 < names_lines content then Some (int (names_lines content)) else None) \<and>
   count_luts_in_blif blif_file \<noteq> Some 0"
  by (auto simp: count_luts_in_blif_def names_lines_def names_matches_lines Let_def
      split: option.splits)

lemma count_luts_examples:
  "names_lines blif3 = 3 \<and> count_luts_in_blif (Some blif3) = Some 3 \<and>
   names_lines blif0 = 0 \<and> count_luts_in_blif (Some blif0) = None"
  by code_simp

lemma abc_log_levels: "map py_int (findall_levels abc_log) = [12, 9, 15]"
  by code_simp

text \<open>
  C2, as the code has it. For a log whose statistics-line matches carry, in order of
  appearance, the levels of a non-empty list, the log-pattern extractor returns the last
  level of the list: for the levels 12, 9 and 15 it returns 15.
\<close>

theorem last_match_wins:
  assumes "map py_int (findall_levels content) = levels" and "levels \<noteq> []"
  shows "parse_yosys_abc_levels (Some content) = Some (last levels)"
  using assms by (auto simp: parse_yosys_abc_levels_def Let_def last_map)

theorem last_match_wins_witness:
  "map py_int (findall_levels abc_log) = [12, 9, 15] \<and>
   parse_yosys_abc_levels (Some abc_log) = Some 15"
  using last_match_wins [OF abc_log_levels] abc_log_levels by simp

text \<open>
  C2, as the specification states it, fails: the matches of \<open>abc_log\<close> carry the
  levels 12, 9 and 15 in this order, and the extractor does not return 9.
\<close>

theorem levels_12_9_15_not_9:
  "map py_int (findall_levels abc_log) = [12, 9, 15] \<and>
   parse_yosys_abc_levels (Some abc_log) \<noteq> Some 9"
  by code_simp

section \<open>Properties of the comparator\<close>

lemma present_flows: "present metric (flows c y h) = qualifying metric c y h"
  by (cases h) (auto simp: present_def flows_def qualifying_def List.map_filter_def)

lemma length_present: "length (present metric fl) \<le> length fl"
  by (simp add: present_def List.map_filter_def)





lemma compare_results_analysis:
  assumes "compare_results c y h = Inr cmp"
  shows "(length (flows c y h) < 2 \<and>
          analysis cmp = empty_analysis\<lparr>timing_winner := Some ''Unable to compare'',
                                        area_winner := Some ''Unable to compare''\<rparr>) \<or>
         (2 \<le> length (flows c y h) \<and>
          runtime_block (flows c y h)
            (area_block (flows c y h) (timing_block (flows c y h) empty_analysis)) =
          Inr (analysis cmp))"
  using assms by (auto simp: compare_results_def Let_def split: if_splits sum.splits)


lemma area_block_keeps:
  "timing_winner (area_block fl a) = timing_winner a"
  "timing_levels_all (area_block fl a) = timing_levels_all a"
  "timing_improvement (area_block fl a) = timing_improvement a"
  by (simp_all add: area_block_def Let_def)

lemma runtime_block_keeps:
  assumes "runtime_block fl a = Inr a'"
  shows "timing_winner a' = timing_winner a" "timing_levels_all a' = timing_levels_all a"
    "timing_improvement a' = timing_improvement a" "area_winner a' = area_winner a"
    "lut_counts_all a' = lut_counts_all a" "area_improvement a' = area_improvement a"
  using assms by (auto simp: runtime_block_def Let_def split: if_splits)

lemma runtime_block_sets:
  assumes "runtime_block fl a = Inr a'"
  defines "q \<equiv> present runtime fl"
  shows "runtime_winner a' =
           (if 2 \<le> length q then Some (fst (sort_key snd q ! 0)) else runtime_winner a)"
    and "runtimes_all a' = (if 2 \<le> length q then Some (sort_key snd q) else runtimes_all a)"
    and "speedup a' =
           (if 2 \<le> length q then Some (snd (sort_key snd q ! 1) / snd (sort_key snd q ! 0))
            else speedup a)"
    and "2 \<le> length q \<Longrightarrow> snd (sort_key snd q ! 0) \<noteq> 0"
  using assms(1) unfolding q_def
  by (auto simp: runtime_block_def Let_def split: if_splits)

lemma timing_block_keeps:
  "area_winner (timing_block fl a) = area_winner a"
  "lut_counts_all (timing_block fl a) = lut_counts_all a"
  "area_improvement (timing_block fl a) = area_improvement a"
  by (simp_all add: timing_block_def Let_def)

lemma few_flows:
  "length (flows c y h) < 2 \<Longrightarrow> \<not> 2 \<le> length (qualifying metric c y h)"
  using length_present [of metric "flows c y h"] by (simp add: present_flows)

lemma timing_analysis:
  assumes "compare_results c y h = Inr cmp"
  defines "q \<equiv> qualifying timing_levels c y h"
  shows "timing_winner (analysis cmp) =
           Some (if 2 \<le> length q then fst (sort_key snd q ! 0) else ''Unable to compare'')"
    and "timing_levels_all (analysis cmp) = (if 2 \<le> length q then Some (sort_key snd q) else None)"
    and "timing_improvement (analysis cmp) =
           (if 2 \<le> length q then Some (snd (sort_key snd q ! 1) - snd (sort_key snd q ! 0))
            else None)"
proof -
  from compare_results_analysis [OF assms(1)]
  have "timing_winner (analysis cmp) =
           Some (if 2 \<le> length q then fst (sort_key snd q ! 0) else ''Unable to compare'') \<and>
        timing_levels_all (analysis cmp) = (if 2 \<le> length q then Some (sort_key snd q) else None) \<and>
        timing_improvement (analysis cmp) =
           (if 2 \<le> length q then Some (snd (sort_key snd q ! 1) - snd (sort_key snd q ! 0))
            else None)"
  proof
    assume "length (flows c y h) < 2 \<and>
          analysis cmp = empty_analysis\<lparr>timing_winner := Some ''Unable to compare'',
                                        area_winner := Some ''Unable to compare''\<rparr>"
    then show ?thesis
      using few_flows [of c y h timing_levels] by (simp add: q_def empty_analysis_def)
  next
    assume "2 \<le> length (flows c y h) \<and>
          runtime_block (flows c y h)
            (area_block (flows c y h) (timing_block (flows c y h) empty_analysis)) =
          Inr (analysis cmp)"
    then have r: "runtime_block (flows c y h)
            (area_block (flows c y h) (timing_block (flows c y h) empty_analysis)) =
          Inr (analysis cmp)" by simp
    show ?thesis
      unfolding runtime_block_keeps [OF r] area_block_keeps
      by (simp add: timing_block_def Let_def present_flows q_def empty_analysis_def)
  qed
  then show "timing_winner (analysis cmp) =
           Some (if 2 \<le> length q then fst (sort_key snd q ! 0) else ''Unable to compare'')"
    and "timing_levels_all (analysis cmp) = (if 2 \<le> length q then Some (sort_key snd q) else None)"
    and "timing_improvement (analysis cmp) =
           (if 2 \<le> length q then Some (snd (sort_key snd q ! 1) - snd (sort_key snd q ! 0))
            else None)"
    by simp_all
qed

lemma area_analysis:
  assumes "compare_results c y h = Inr cmp"
  defines "q \<equiv> qualifying lut_count c y h"
  shows "area_winner (analysis cmp) =
           Some (if 2 \<le> length q then fst (sort_key snd q ! 0) else ''Unable to compare'')"
    and "lut_counts_all (analysis cmp) = (if 2 \<le> length q then Some (sort_key snd q) else None)"
    and "area_improvement (analysis cmp) =
           (if 2 \<le> length q then Some (snd (sort_key snd q ! 1) - snd (sort_key snd q ! 0))
            else None)"
proof -
  from compare_results_analysis [OF assms(1)]
  have "area_winner (analysis cmp) =
           Some (if 2 \<le> length q then fst (sort_key snd q ! 0) else ''Unable to compare'') \<and>
        lut_counts_all (analysis cmp) = (if 2 \<le> length q then Some (sort_key snd q) else None) \<and>
        area_improvement (analysis cmp) =
           (if 2 \<le> length q then Some (snd (sort_key snd q ! 1) - snd (sort_key snd q ! 0))
            else None)"
  proof
    assume "length (flows c y h) < 2 \<and>
          analysis cmp = empty_analysis\<lparr>timing_winner := Some ''Unable to compare'',
                                        area_winner := Some ''Unable to compare''\<rparr>"
    then show ?thesis
      using few_flows [of c y h lut_count] by (simp add: q_def empty_analysis_def)
  next
    assume "2 \<le> length (flows c y h) \<and>
          runtime_block (flows c y h)
            (area_block (flows c y h) (timing_block (flows c y h) empty_analysis)) =
          Inr (analysis cmp)"
    then have r: "runtime_block (flows c y h)
            (area_block (flows c y h) (timing_block (flows c y h) empty_analysis)) =
          Inr (analysis cmp)" by simp
    show ?thesis
      unfolding runtime_block_keeps [OF r]
      by (simp add: area_block_def Let_def present_flows q_def timing_block_keeps
          empty_analysis_def)
  qed
  then show "area_winner (analysis cmp) =
           Some (if 2 \<le> length q then fst (sort_key snd q ! 0) else ''Unable to compare'')"
    and "lut_counts_all (analysis cmp) = (if 2 \<le> length q then Some (sort_key snd q) else None)"
    and "area_improvement (analysis cmp) =
           (if 2 \<le> length q then Some (snd (sort_key snd q ! 1) - snd (sort_key snd q ! 0))
            else None)"
    by simp_all
qed

lemma runtime_analysis:
  assumes "compare_results c y h = Inr cmp"
  defines "q \<equiv> qualifying runtime c y h"
  shows "runtime_winner (analysis cmp) =
           (if 2 \<le> length q then Some (fst (sort_key snd q ! 0)) else None)"
    and "runtimes_all (analysis cmp) = (if 2 \<le> length q then Some (sort_key snd q) else None)"
    and "speedup (analysis cmp) =
           (if 2 \<le> length q then Some (snd (sort_key snd q ! 1) / snd (sort_key snd q ! 0))
            else None)"
    and "2 \<le> length q \<Longrightarrow> snd (sort_key snd q ! 0) \<noteq> 0"
proof -
  from compare_results_analysis [OF assms(1)]
  have "runtime_winner (analysis cmp) =
           (if 2 \<le> length q then Some (fst (sort_key snd q ! 0)) else None) \<and>
        runtimes_all (analysis cmp) = (if 2 \<le> length q then Some (sort_key snd q) else None) \<and>
        speedup (analysis cmp) =
           (if 2 \<le> length q then Some (snd (sort_key snd q ! 1) / snd (sort_key snd q ! 0))
            else None) \<and>
        (2 \<le> length q \<longrightarrow> snd (sort_key snd q ! 0) \<noteq> 0)"
  proof
    assume "length (flows c y h) < 2 \<and>
          analysis cmp = empty_analysis\<lparr>timing_winner := Some ''Unable to compare'',
                                        area_winner := Some ''Unable to compare''\<rparr>"
    then show ?thesis
      using few_flows [of c y h runtime] by (simp add: q_def empty_analysis_def)
  next
    assume "2 \<le> length (flows c y h) \<and>
          runtime_block (flows c y h)
            (area_block (flows c y h) (timing_block (flows c y h) empty_analysis)) =
          Inr (analysis cmp)"
    then have r: "runtime_block (flows c y h)
            (area_block (flows c y h) (timing_block (flows c y h) empty_analysis)) =
          Inr (analysis cmp)" by simp
    have k: "runtime_winner (area_block (flows c y h) (timing_block (flows c y h) empty_analysis)) = None"
      "runtimes_all (area_block (flows c y h) (timing_block (flows c y h) empty_analysis)) = None"
      "speedup (area_block (flows c y h) (timing_block (flows c y h) empty_analysis)) = None"
      by (simp_all add: area_block_def timing_block_def Let_def empty_analysis_def)
    from runtime_block_sets [OF r] k show ?thesis
      by (simp add: present_flows q_def)
  qed
  then show "runtime_winner (analysis cmp) =
           (if 2 \<le> length q then Some (fst (sort_key snd q ! 0)) else None)"
    and "runtimes_all (analysis cmp) = (if 2 \<le> length q then Some (sort_key snd q) else None)"
    and "speedup (analysis cmp) =
           (if 2 \<le> length q then Some (snd (sort_key snd q ! 1) / snd (sort_key snd q ! 0))
            else None)"
    and "2 \<le> length q \<Longrightarrow> snd (sort_key snd q ! 0) \<noteq> 0"
    by simp_all
qed

lemma qualifying_names:
  "subseq (map fst (qualifying metric c y h)) [''CIRCT'', ''Yosys+ABC'', ''CIRCT+Yosys'']"
proof (cases h)
  case None
  then show ?thesis
    by (cases "metric c"; cases "metric y") (auto simp: qualifying_def List.map_filter_def)
next
  case (Some r)
  then show ?thesis
    by (cases "metric c"; cases "metric y"; cases "metric r")
       (auto simp: qualifying_def List.map_filter_def)
qed

lemma sorted_first_two:
  fixes q :: "(string \<times> 'a::linorder) list"
  assumes "2 \<le> length q"
  shows "snd (sort_key snd q ! 0) \<le> snd (sort_key snd q ! 1)"
proof -
  have l: "0 < length (sort_key snd q)" "1 < length (sort_key snd q)" using assms by auto
  have "sorted (map snd (sort_key snd q))" by (rule sorted_sort_key)
  moreover have "1 < length (map snd (sort_key snd q))" using assms by auto
  ultimately have "map snd (sort_key snd q) ! 0 \<le> map snd (sort_key snd q) ! 1"
    by (intro sorted_nth_mono) simp_all
  then show ?thesis using l by (simp only: nth_map)
qed

lemma sort_key_first_mem:
  assumes "2 \<le> length q"
  shows "sort_key f q ! 0 \<in> set q"
proof -
  have "0 < length q" using assms by auto
  then have "0 < length (sort_key f q)" by simp
  then have "sort_key f q ! 0 \<in> set (sort_key f q)" by (rule nth_mem)
  then show ?thesis by simp
qed





lemma deep_shallow_comparison:
  "case compare_results deep_circt shallow_yosys None of
     Inl e \<Rightarrow> False
   | Inr cmp \<Rightarrow>
       timing_levels_all (analysis cmp) = Some [(''Yosys+ABC'', 5), (''CIRCT'', 10)] \<and>
       timing_improvement (analysis cmp) = Some 5 \<and>
       area_improvement (analysis cmp) = Some 10 \<and>
       speedup (analysis cmp) = Some (3 / 2)"
  by code_simp

lemma deep_shallow_qualifying:
  "qualifying timing_levels deep_circt shallow_yosys None = [(''CIRCT'', 10), (''Yosys+ABC'', 5)] \<and>
   qualifying runtime deep_circt shallow_yosys None = [(''CIRCT'', 3), (''Yosys+ABC'', 2)]"
  by code_simp




text \<open>
  C8, as the code has it. The comparator sorts the list of a metric in place before it
  builds the mapping from it, so each mapping of the analysis lists the qualifying
  strategies in ascending order of their values, strategies of equal value in the order
  in which they were supplied; it holds the same strategies and values as were supplied.
\<close>

theorem mappings_in_rank_order:
  assumes "compare_results c y h = Inr cmp"
  shows "(\<forall>l. timing_levels_all (analysis cmp) = Some l \<longrightarrow>
            sorted (map snd l) \<and> mset l = mset (qualifying timing_levels c y h) \<and>
            (\<forall>k. filter (\<lambda>p. snd p = k) l =
                 filter (\<lambda>p. snd p = k) (qualifying timing_levels c y h))) \<and>
         (\<forall>l. lut_counts_all (analysis cmp) = Some l \<longrightarrow>
            sorted (map snd l) \<and> mset l = mset (qualifying lut_count c y h) \<and>
            (\<forall>k. filter (\<lambda>p. snd p = k) l =
                 filter (\<lambda>p. snd p = k) (qualifying lut_count c y h))) \<and>
         (\<forall>l. runtimes_all (analysis cmp) = Some l \<longrightarrow>
            sorted (map snd l) \<and> mset l = mset (qualifying runtime c y h) \<and>
            (\<forall>k. filter (\<lambda>p. snd p = k) l =
                 filter (\<lambda>p. snd p = k) (qualifying runtime c y h)))"
  using timing_analysis(2) [OF assms] area_analysis(2) [OF assms] runtime_analysis(2) [OF assms]
  by (auto simp: sort_key_stable split: if_splits)

text \<open>The witness of C8: the mapping of the depths 10 and 5.\<close>

theorem mappings_in_rank_order_witness:
  "\<exists>cmp. compare_results deep_circt shallow_yosys None = Inr cmp \<and>
      timing_levels_all (analysis cmp) = Some [(''Yosys+ABC'', 5), (''CIRCT'', 10)] \<and>
      sorted (map snd [(''Yosys+ABC'', 5::int), (''CIRCT'', 10)]) \<and>
      mset [(''Yosys+ABC'', 5::int), (''CIRCT'', 10)] =
        mset (qualifying timing_levels deep_circt shallow_yosys None)"
proof -
  from deep_shallow_comparison obtain cmp
    where c: "compare_results deep_circt shallow_yosys None = Inr cmp"
      and l: "timing_levels_all (analysis cmp) = Some [(''Yosys+ABC'', 5), (''CIRCT'', 10)]"
    by (cases "compare_results deep_circt shallow_yosys None") auto
  from mappings_in_rank_order [OF c] l
  have "sorted (map snd [(''Yosys+ABC'', 5::int), (''CIRCT'', 10)]) \<and>
      mset [(''Yosys+ABC'', 5::int), (''CIRCT'', 10)] =
        mset (qualifying timing_levels deep_circt shallow_yosys None)"
    by blast
  with c l show ?thesis by blast
qed

text \<open>
  C8, as the specification states it, fails: CIRCT is supplied first with depth 10,
  Yosys+ABC second with depth 5, and the mapping of the analysis lists Yosys+ABC first.
\<close>

theorem supplied_order_not_preserved:
  "\<exists>cmp. compare_results deep_circt shallow_yosys None = Inr cmp \<and>
      qualifying timing_levels deep_circt shallow_yosys None =
        [(''CIRCT'', 10), (''Yosys+ABC'', 5)] \<and>
      timing_levels_all (analysis cmp) = Some [(''Yosys+ABC'', 5), (''CIRCT'', 10)]"
proof -
  from deep_shallow_comparison obtain cmp
    where "compare_results deep_circt shallow_yosys None = Inr cmp"
      and "timing_levels_all (analysis cmp) = Some [(''Yosys+ABC'', 5), (''CIRCT'', 10)]"
    by (cases "compare_results deep_circt shallow_yosys None") auto
  with deep_shallow_qualifying show ?thesis by blast
qed

text \<open>
  C10. Whenever the analysis holds a timing or an area improvement, it is at least 0;
  whenever it holds a speedup and the qualifying runtimes are positive, it is at least 1.
  Runtimes are real numbers here; correctly rounded division keeps the bound.
\<close>

theorem margins_bounded:
  assumes "compare_results c y h = Inr cmp"
  shows "(\<forall>v. timing_improvement (analysis cmp) = Some v \<longrightarrow> 0 \<le> v) \<and>
         (\<forall>v. area_improvement (analysis cmp) = Some v \<longrightarrow> 0 \<le> v) \<and>
         (\<forall>s. speedup (analysis cmp) = Some s \<longrightarrow>
              (\<forall>p\<in>set (qualifying runtime c y h). 0 < snd p) \<longrightarrow> 1 \<le> s)"
proof (intro conjI allI impI)
  fix v assume "timing_improvement (analysis cmp) = Some v"
  then show "0 \<le> v"
    using timing_analysis(3) [OF assms] sorted_first_two [of "qualifying timing_levels c y h"]
    by (auto split: if_splits)
next
  fix v assume "area_improvement (analysis cmp) = Some v"
  then show "0 \<le> v"
    using area_analysis(3) [OF assms] sorted_first_two [of "qualifying lut_count c y h"]
    by (auto split: if_splits)
next
  fix s assume s: "speedup (analysis cmp) = Some s"
    and pos: "\<forall>p\<in>set (qualifying runtime c y h). 0 < snd p"
  let ?q = "qualifying runtime c y h"
  from s runtime_analysis(3) [OF assms] have two: "2 \<le> length ?q"
    and sv: "s = snd (sort_key snd ?q ! 1) / snd (sort_key snd ?q ! 0)"
    by (auto split: if_splits)
  from two have "sort_key snd ?q ! 0 \<in> set ?q" by (rule sort_key_first_mem)
  with pos have "0 < snd (sort_key snd ?q ! 0)" by blast
  moreover from two have "snd (sort_key snd ?q ! 0) \<le> snd (sort_key snd ?q ! 1)"
    by (rule sorted_first_two)
  ultimately show "1 \<le> s" unfolding sv by simp
qed

text \<open>The witness of C10: improvements 5 and 10, speedup 3/2.\<close>

theorem margins_bounded_witness:
  "\<exists>cmp. compare_results deep_circt shallow_yosys None = Inr cmp \<and>
      timing_improvement (analysis cmp) = Some 5 \<and> (0::int) \<le> 5 \<and>
      area_improvement (analysis cmp) = Some 10 \<and> (0::int) \<le> 10 \<and>
      speedup (analysis cmp) = Some (3 / 2) \<and> (1::real) \<le> 3 / 2"
proof -
  from deep_shallow_comparison obtain cmp
    where c: "compare_results deep_circt shallow_yosys None = Inr cmp"
      and v: "timing_improvement (analysis cmp) = Some 5"
        "area_improvement (analysis cmp) = Some 10"
        "speedup (analysis cmp) = Some (3 / 2)"
    by (cases "compare_results deep_circt shallow_yosys None") auto
  have pos: "\<forall>p\<in>set (qualifying runtime deep_circt shallow_yosys None). 0 < snd p"
    using deep_shallow_qualifying by simp
  from margins_bounded [OF c] v pos have "(0::int) \<le> 5 \<and> (0::int) \<le> 10 \<and> (1::real) \<le> 3 / 2"
    by blast
  with c v show ?thesis by blast
qed

text \<open>
  With fewer than two qualifying strategies no ranking and no margin is stored for a
  metric; depth and cell count get the marker as winner, and runtime gets no winner.
\<close>

lemma few_qualify_no_ranking:
  assumes "compare_results c y h = Inr cmp"
  shows "(length (qualifying timing_levels c y h) < 2 \<longrightarrow>
            timing_winner (analysis cmp) = Some ''Unable to compare'' \<and>
            timing_levels_all (analysis cmp) = None \<and> timing_improvement (analysis cmp) = None) \<and>
         (length (qualifying lut_count c y h) < 2 \<longrightarrow>
            area_winner (analysis cmp) = Some ''Unable to compare'' \<and>
            lut_counts_all (analysis cmp) = None \<and> area_improvement (analysis cmp) = None) \<and>
         (length (qualifying runtime c y h) < 2 \<longrightarrow>
            runtime_winner (analysis cmp) = None \<and>
            runtimes_all (analysis cmp) = None \<and> speedup (analysis cmp) = None)"
  using timing_analysis [OF assms] area_analysis [OF assms] runtime_analysis(1-3) [OF assms]
  by simp

text \<open>
  C3. The specification asks that a metric with fewer than two qualifying strategies
  gets the marker \<open>Unable to compare\<close> as its winner and no ranking. The code stores
  the marker for depth and cell count and stores nothing for runtime: with CIRCT the only
  successful flow, one strategy qualifies for each metric, the timing and the area winner
  are the marker, and the analysis has no \<open>runtime_winner\<close>.
\<close>

theorem runtime_winner_left_unset:
  "\<exists>cmp. compare_results (run_circt_synthesis env_ok) (run_yosys_synthesis env_stage_fails)
        (Some (run_hybrid_synthesis env_stage_fails)) = Inr cmp \<and>
      length (qualifying timing_levels (run_circt_synthesis env_ok)
        (run_yosys_synthesis env_stage_fails) (Some (run_hybrid_synthesis env_stage_fails))) = 1 \<and>
      length (qualifying lut_count (run_circt_synthesis env_ok)
        (run_yosys_synthesis env_stage_fails) (Some (run_hybrid_synthesis env_stage_fails))) = 1 \<and>
      length (qualifying runtime (run_circt_synthesis env_ok)
        (run_yosys_synthesis env_stage_fails) (Some (run_hybrid_synthesis env_stage_fails))) = 1 \<and>
      timing_winner (analysis cmp) = Some ''Unable to compare'' \<and>
      area_winner (analysis cmp) = Some ''Unable to compare'' \<and>
      runtime_winner (analysis cmp) = None"
proof -
  let ?c = "run_circt_synthesis env_ok" and ?y = "run_yosys_synthesis env_stage_fails"
    and ?h = "Some (run_hybrid_synthesis env_stage_fails)"
  have "case compare_results ?c ?y ?h of
          Inl e \<Rightarrow> False
        | Inr cmp \<Rightarrow>
            timing_winner (analysis cmp) = Some ''Unable to compare'' \<and>
            area_winner (analysis cmp) = Some ''Unable to compare'' \<and>
            runtime_winner (analysis cmp) = None"
    by code_simp
  moreover have "length (qualifying timing_levels ?c ?y ?h) = 1 \<and>
      length (qualifying lut_count ?c ?y ?h) = 1 \<and> length (qualifying runtime ?c ?y ?h) = 1"
    by code_simp
  ultimately show ?thesis
    by (cases "compare_results ?c ?y ?h") auto
qed

section \<open>Properties of the flow runners\<close>

text \<open>
  A first tool that exits with a non-zero status ends the flow at once: the result is
  the fresh record with the error message, and its runtime was never set.
\<close>

lemma circt_stage_failure:
  assumes "fst (run_command (verilog_run env)) \<noteq> 0"
  shows "run_circt_synthesis env =
           new_results\<lparr>error_message :=
             Some (''circt-verilog failed: '' @ snd (snd (run_command (verilog_run env))))\<rparr>"
  using assms by (cases "run_command (verilog_run env)") (simp add: run_circt_synthesis_def Let_def)

text \<open>
  C1. The specification asks that the result of a flow whose stage exits with a non-zero
  status still holds the runtime measured up to the failure. Where the first tool exits
  with status 1, each of the three flows returns the fresh record with only the error
  message set: the runtime is absent. Only the exception handler of a flow measures the
  runtime of a failed run.
\<close>

theorem stage_failure_leaves_runtime_unset:
  "run_circt_synthesis env_stage_fails =
     new_results\<lparr>error_message := Some ''circt-verilog failed: syntax error''\<rparr> \<and>
   run_yosys_synthesis env_stage_fails =
     new_results\<lparr>error_message := Some ''Yosys failed: syntax error''\<rparr> \<and>
   run_hybrid_synthesis env_stage_fails =
     new_results\<lparr>error_message := Some ''circt-verilog failed: syntax error''\<rparr> \<and>
   runtime (run_circt_synthesis env_stage_fails) = None \<and>
   runtime (run_yosys_synthesis env_stage_fails) = None \<and>
   runtime (run_hybrid_synthesis env_stage_fails) = None"
  by code_simp

text \<open>
  The CIRCT flow keeps the invariant of the flow result in every environment; the Yosys
  and the hybrid flow keep it as long as neither the test for the netlist file nor the
  removal of the temporary script raises.
\<close>

lemma circt_flow_invariant:
  "(\<not> success (run_circt_synthesis env) \<longrightarrow>
      timing_levels (run_circt_synthesis env) = None \<and> lut_count (run_circt_synthesis env) = None) \<and>
   (success (run_circt_synthesis env) \<longrightarrow> error_message (run_circt_synthesis env) = None)"
  by (simp add: run_circt_synthesis_def Let_def new_results_def handler_def
      split: prod.splits sum.splits)

lemma yosys_flow_invariant:
  assumes "unlink env = None" and "blif_exists env = Inr there"
  shows "(\<not> success (run_yosys_synthesis env) \<longrightarrow>
            timing_levels (run_yosys_synthesis env) = None \<and>
            lut_count (run_yosys_synthesis env) = None) \<and>
         (success (run_yosys_synthesis env) \<longrightarrow> error_message (run_yosys_synthesis env) = None)"
  using assms
  by (simp add: run_yosys_synthesis_def Let_def new_results_def handler_def
      split: prod.splits sum.splits option.splits)

lemma hybrid_flow_invariant:
  assumes "unlink env = None" and "blif_exists env = Inr there"
  shows "(\<not> success (run_hybrid_synthesis env) \<longrightarrow>
            timing_levels (run_hybrid_synthesis env) = None \<and>
            lut_count (run_hybrid_synthesis env) = None) \<and>
         (success (run_hybrid_synthesis env) \<longrightarrow> error_message (run_hybrid_synthesis env) = None)"
  using assms
  by (simp add: run_hybrid_synthesis_def Let_def new_results_def handler_def
      split: prod.splits sum.splits option.splits)

text \<open>
  C4. The specification asks that a flow result that succeeded holds no failure reason.
  The Yosys and the hybrid flow set \<open>success\<close> before they remove the temporary
  script; when the removal raises, the handler stores an error message in the result
  that is already marked successful.
\<close>

theorem cleanup_fault_after_success:
  "success (run_yosys_synthesis env_unlink_fails) \<and>
   error_message (run_yosys_synthesis env_unlink_fails) =
     Some ''Yosys synthesis error: No such file or directory'' \<and>
   success (run_hybrid_synthesis env_unlink_fails) \<and>
   error_message (run_hybrid_synthesis env_unlink_fails) =
     Some ''Hybrid synthesis error: No such file or directory''"
  by code_simp

section \<open>Properties of the batch driver\<close>

lemma subseq_set: "subseq xs ys \<Longrightarrow> set xs \<subseteq> set ys"
  by (induction rule: list_emb.induct) auto

lemma winner_not_tie:
  assumes "compare_results c y h = Inr cmp"
  shows "get_winner (timing_winner (analysis cmp)) \<noteq> ''Tie''"
    and "get_winner (area_winner (analysis cmp)) \<noteq> ''Tie''"
proof -
  have names: "2 \<le> length q \<Longrightarrow>
      subseq (map fst q) [''CIRCT'', ''Yosys+ABC'', ''CIRCT+Yosys''] \<Longrightarrow>
      fst (sort_key snd q ! 0) \<noteq> ''Tie''" for q :: "(string \<times> int) list"
  proof -
    assume two: "2 \<le> length q"
      and sub: "subseq (map fst q) [''CIRCT'', ''Yosys+ABC'', ''CIRCT+Yosys'']"
    from two have "sort_key snd q ! 0 \<in> set q" by (rule sort_key_first_mem)
    then have "fst (sort_key snd q ! 0) \<in> set (map fst q)" by simp
    also from sub have "set (map fst q) \<subseteq> set [''CIRCT'', ''Yosys+ABC'', ''CIRCT+Yosys'']"
      by (rule subseq_set)
    finally have "fst (sort_key snd q ! 0) \<in> set [''CIRCT'', ''Yosys+ABC'', ''CIRCT+Yosys'']" .
    then show ?thesis by auto
  qed
  show "get_winner (timing_winner (analysis cmp)) \<noteq> ''Tie''"
    using timing_analysis(1) [OF assms] names [OF _ qualifying_names, of timing_levels c y h]
    by (simp add: get_winner_def)
  show "get_winner (area_winner (analysis cmp)) \<noteq> ''Tie''"
    using area_analysis(1) [OF assms] names [OF _ qualifying_names, of lut_count c y h]
    by (simp add: get_winner_def)
qed

lemma try_file_compared:
  assumes "try_file f = Inr cmp"
  shows "\<exists>c y h. compare_results c y h = Inr cmp"
  using assms
  by (auto simp: try_file_def run_comparison_def Let_def split: option.splits sum.splits)

lemma tally_ties:
  assumes "get_winner (timing_winner (analysis cmp)) \<noteq> ''Tie''"
    and "get_winner (area_winner (analysis cmp)) \<noteq> ''Tie''"
  shows "ties_timing (tally s cmp) = ties_timing s" and "ties_area (tally s cmp) = ties_area s"
  using assms by (simp_all add: tally_def Let_def)

lemma process_file_ties:
  "ties_timing (summary (process_file b f)) = ties_timing (summary b) \<and>
   ties_area (summary (process_file b f)) = ties_area (summary b)"
proof (cases "try_file f")
  case (Inl e)
  then show ?thesis by (simp add: process_file_def)
next
  case (Inr cmp)
  from try_file_compared [OF Inr] obtain c y h where "compare_results c y h = Inr cmp"
    by blast
  from winner_not_tie [OF this] Inr show ?thesis
    by (simp add: process_file_def tally_ties)
qed

lemma batch_loop_ties:
  "ties_timing (summary (foldl process_file b fs)) = ties_timing (summary b) \<and>
   ties_area (summary (foldl process_file b fs)) = ties_area (summary b)"
  by (induction fs arbitrary: b) (simp_all add: process_file_ties)

lemma tally_failed:
  "failed_comparisons (tally s cmp) =
     failed_comparisons s + (if success (circt cmp) \<and> success (yosys cmp) then 0 else 1)"
  by (simp add: tally_def Let_def)

lemma process_file_failed:
  "failed_comparisons (summary (process_file b f)) =
     failed_comparisons (summary b) + (if faulted f then 1 else 0) + (if flow_failed f then 1 else 0)"
  by (cases "try_file f") (simp_all add: process_file_def faulted_def flow_failed_def tally_failed)

lemma batch_loop_failed:
  "failed_comparisons (summary (foldl process_file b fs)) =
     failed_comparisons (summary b) + length (filter faulted fs) + length (filter flow_failed fs)"
  by (induction fs arbitrary: b) (simp_all add: process_file_failed)

lemma process_file_results:
  "results (process_file b f) = (results b)(path_name (verilog_file f) \<mapsto> file_record f)"
  by (cases "try_file f") (simp_all add: process_file_def file_record_def)

lemma batch_loop_results:
  assumes "distinct (map (\<lambda>f. path_name (verilog_file f)) fs)" and "f \<in> set fs"
  shows "results (foldl process_file b fs) (path_name (verilog_file f)) = Some (file_record f)"
  using assms
proof (induction fs rule: rev_induct)
  case Nil
  then show ?case by simp
next
  case (snoc g fs)
  show ?case
  proof (cases "f = g")
    case True
    then show ?thesis by (simp add: process_file_results)
  next
    case False
    with snoc.prems have f: "f \<in> set fs" and d: "distinct (map (\<lambda>f. path_name (verilog_file f)) fs)"
      and g: "path_name (verilog_file g) \<notin> (\<lambda>f. path_name (verilog_file f)) ` set fs"
      by simp_all
    have ne: "path_name (verilog_file f) \<noteq> path_name (verilog_file g)"
    proof
      assume "path_name (verilog_file f) = path_name (verilog_file g)"
      with f have "path_name (verilog_file g) \<in> (\<lambda>f. path_name (verilog_file f)) ` set fs"
        by (simp add: image_iff) metis
      with g show False by contradiction
    qed
    from snoc.IH [OF d f] ne show ?thesis by (simp add: process_file_results)
  qed
qed

lemma batch_second_raises_facts:
  "batch_second_raises \<noteq> [] \<and>
   distinct (map (\<lambda>f. path_name (verilog_file f)) batch_second_raises) \<and>
   map faulted batch_second_raises = [False, True, False] \<and>
   map flow_failed batch_second_raises = [False, False, False] \<and>
   map (\<lambda>f. path_name (verilog_file f)) batch_second_raises = [''a.sv'', ''b.sv'', ''c.sv'']"
  by code_simp

lemma batch_second_raises_records:
  "file_record (file_raises ''designs/b.sv'') =
     Errored ''designs/b.sv'' ''No space left on device'' \<and>
   (case file_record (file_ok ''designs/a.sv'') of
      Compared p c y a \<Rightarrow> p = ''designs/a.sv'' \<and> success c \<and> success y
    | Errored p e \<Rightarrow> False) \<and>
   (case file_record (file_ok ''designs/c.sv'') of
      Compared p c y a \<Rightarrow> p = ''designs/c.sv'' \<and> success c \<and> success y
    | Errored p e \<Rightarrow> False)"
  by code_simp

lemma batch_first_flow_fails_facts:
  "batch_first_flow_fails \<noteq> [] \<and>
   map faulted batch_first_flow_fails = [False, True, False] \<and>
   map flow_failed batch_first_flow_fails = [True, False, False] \<and>
   (case run_batch_comparison ''designs'' batch_first_flow_fails None of
      Inl e \<Rightarrow> False
    | Inr b \<Rightarrow> failed_comparisons (summary b) = 2)"
  by code_simp

text \<open>
  C6. In every batch summary that the batch driver returns, the tie tallies
  \<open>ties_timing\<close> and \<open>ties_area\<close> are zero: the winner of the comparator is the
  marker or the name of a strategy, never \<open>Tie\<close>.
\<close>

theorem tie_tallies_stay_zero:
  assumes "run_batch_comparison path fs save_fault = Inr b"
  shows "ties_timing (summary b) = 0 \<and> ties_area (summary b) = 0"
proof -
  from assms have "b = foldl process_file (initial_batch path (length fs)) fs"
    by (auto simp: run_batch_comparison_def Let_def split: if_splits option.splits)
  then show ?thesis
    using batch_loop_ties [of "initial_batch path (length fs)" fs]
    by (simp add: initial_batch_def)
qed

text \<open>
  The witness of C6: a batch of three files; in two of them Yosys+ABC and CIRCT+Yosys
  have equal depths and equal cell counts.
\<close>

theorem tie_tallies_stay_zero_witness:
  "\<exists>b. run_batch_comparison ''designs'' batch_second_raises None = Inr b \<and>
      ties_timing (summary b) = 0 \<and> ties_area (summary b) = 0"
proof -
  have "batch_second_raises \<noteq> []" using batch_second_raises_facts by simp
  then obtain b where b: "run_batch_comparison ''designs'' batch_second_raises None = Inr b"
    by (simp add: run_batch_comparison_def)
  from tie_tallies_stay_zero [OF b] b show ?thesis by blast
qed

text \<open>
  C7, as the code has it. For every batch of files with distinct names, the batch driver
  returns a summary (when the batch report can be saved) whose results hold an entry for
  every file: a fault raised while a file is processed is caught and recorded as the
  failure entry of that file, and the loop goes on. \<open>failed_comparisons\<close> is the
  number of files that raised a fault plus the number of files that were processed
  without a fault and whose CIRCT or Yosys flow did not succeed.
\<close>

theorem batch_isolates_faults:
  assumes "fs \<noteq> []" and "distinct (map (\<lambda>f. path_name (verilog_file f)) fs)"
  shows "\<exists>b. run_batch_comparison path fs None = Inr b \<and>
           (\<forall>f\<in>set fs. results b (path_name (verilog_file f)) = Some (file_record f)) \<and>
           (\<forall>f\<in>set fs. faulted f \<longrightarrow> (\<exists>e. file_record f = Errored (verilog_file f) e)) \<and>
           failed_comparisons (summary b) =
             length (filter faulted fs) + length (filter flow_failed fs)"
proof -
  let ?b = "foldl process_file (initial_batch path (length fs)) fs"
  have "run_batch_comparison path fs None = Inr ?b"
    using assms(1) by (simp add: run_batch_comparison_def)
  moreover have "\<forall>f\<in>set fs. results ?b (path_name (verilog_file f)) = Some (file_record f)"
    using batch_loop_results [OF assms(2)] by blast
  moreover have "\<forall>f\<in>set fs. faulted f \<longrightarrow> (\<exists>e. file_record f = Errored (verilog_file f) e)"
    by (auto simp: faulted_def file_record_def split: sum.splits)
  moreover have "failed_comparisons (summary ?b) =
      length (filter faulted fs) + length (filter flow_failed fs)"
    using batch_loop_failed [of "initial_batch path (length fs)" fs]
    by (simp add: initial_batch_def)
  ultimately show ?thesis by blast
qed

text \<open>
  The witness of C7: three files, the second raises, in the first and the third both
  flows succeed. The first and the third have their comparison records, the second has
  its failure entry, and \<open>failed_comparisons\<close> is 1.
\<close>

theorem batch_isolates_faults_witness:
  "\<exists>b. run_batch_comparison ''designs'' batch_second_raises None = Inr b \<and>
      results b ''a.sv'' = Some (file_record (file_ok ''designs/a.sv'')) \<and>
      results b ''b.sv'' = Some (Errored ''designs/b.sv'' ''No space left on device'') \<and>
      results b ''c.sv'' = Some (file_record (file_ok ''designs/c.sv'')) \<and>
      failed_comparisons (summary b) = 1"
proof -
  have ne: "batch_second_raises \<noteq> []"
    and d: "distinct (map (\<lambda>f. path_name (verilog_file f)) batch_second_raises)"
    and fa: "map faulted batch_second_raises = [False, True, False]"
    and ff: "map flow_failed batch_second_raises = [False, False, False]"
    and nm: "map (\<lambda>f. path_name (verilog_file f)) batch_second_raises = [''a.sv'', ''b.sv'', ''c.sv'']"
    using batch_second_raises_facts by simp_all
  from batch_isolates_faults [OF ne d, of "''designs''"] obtain b
    where b: "run_batch_comparison ''designs'' batch_second_raises None = Inr b"
      and r: "\<forall>f\<in>set batch_second_raises.
                results b (path_name (verilog_file f)) = Some (file_record f)"
      and n: "failed_comparisons (summary b) =
                length (filter faulted batch_second_raises) +
                length (filter flow_failed batch_second_raises)"
    by blast
  from fa ff have "length (filter faulted batch_second_raises) = 1"
    and "length (filter flow_failed batch_second_raises) = 0"
    by (simp_all add: batch_second_raises_def)
  with n have one: "failed_comparisons (summary b) = 1" by simp
  from r nm batch_second_raises_records
  have "results b ''a.sv'' = Some (file_record (file_ok ''designs/a.sv'')) \<and>
      results b ''b.sv'' = Some (Errored ''designs/b.sv'' ''No space left on device'') \<and>
      results b ''c.sv'' = Some (file_record (file_ok ''designs/c.sv''))"
    by (simp add: batch_second_raises_def)
  with b one show ?thesis by blast
qed

text \<open>
  C7, as the specification states it, fails: in a batch of three files where only the
  second raises a fault, and the CIRCT flow of the first exits with a non-zero status
  without raising, \<open>failed_comparisons\<close> is 2.
\<close>

theorem other_failures_are_counted_too:
  "map faulted batch_first_flow_fails = [False, True, False] \<and>
   (\<exists>b. run_batch_comparison ''designs'' batch_first_flow_fails None = Inr b \<and>
      failed_comparisons (summary b) = 2)"
  using batch_first_flow_fails_facts
  by (cases "run_batch_comparison ''designs'' batch_first_flow_fails None") auto

end
